theory Spec2Isabelle
  imports Complex_Main
begin

section \<open>The training engine of \<open>model/cGAN.py\<close>\<close>

text \<open>
  The class \<open>CGAN\<close> holds a generator \<open>G\<close>, a discriminator \<open>D\<close>, one optimizer and one
  loss function for each, a data loader, a dataset, a TensorBoard writer and a time stamp.
  Its method \<open>train\<close> runs the epochs: it unlocks characters, processes the batches, saves
  the two networks and renders evaluation images.

  Tensors are lists of reals (a batch is a list of rows). Floating point rounding and NaN
  are not modelled. The networks, the loss functions, the optimizers, the condition
  encoder, the data loader and the image utilities are not part of \<open>cGAN.py\<close>: they are
  the fields of the record \<open>ops\<close>, and every theorem holds for all of them. The constants
  of the module \<open>global_vars\<close> are the fields of the record \<open>config\<close>. Console output,
  timing and the GPU memory reading are left out.
\<close>

subsection \<open>Errors and Python's container operations\<close>

datatype error = KeyError | ZeroDivisionError | IndexError | ValueError

type_synonym tensor = "real list"

text \<open>\<open>d[k]\<close> on a dictionary kept as the list of its items, in insertion order.\<close>

definition dict_get :: "(string \<times> int) list \<Rightarrow> string \<Rightarrow> error + int" where
  "dict_get d k = (case map_of d k of None \<Rightarrow> Inl KeyError | Some v \<Rightarrow> Inr v)"

text \<open>\<open>xs[i]\<close>: a negative index counts from the end, an index out of range raises.\<close>

definition list_get :: "'a list \<Rightarrow> int \<Rightarrow> error + 'a" where
  "list_get xs i =
     (if 0 \<le> i \<and> i < int (length xs) then Inr (xs ! nat i)
      else if i < 0 \<and> - int (length xs) \<le> i then Inr (xs ! nat (int (length xs) + i))
      else Inl IndexError)"

text \<open>\<open>xs[:n]\<close> and \<open>xs[n:]\<close>: a negative bound counts from the end.\<close>

definition slice_to :: "'a list \<Rightarrow> int \<Rightarrow> 'a list" where
  "slice_to xs n = (if n < 0 then take (length xs - nat (- n)) xs else take (nat n) xs)"

definition slice_from :: "'a list \<Rightarrow> int \<Rightarrow> 'a list" where
  "slice_from xs n = (if n < 0 then drop (length xs - nat (- n)) xs else drop (nat n) xs)"

text \<open>\<open>a % b == 0\<close>, which raises when \<open>b\<close> is zero.\<close>

definition divides_epoch :: "int \<Rightarrow> int \<Rightarrow> error + bool" where
  "divides_epoch a b = (if b = 0 then Inl ZeroDivisionError else Inr (a mod b = 0))"

text \<open>\<open>"%d" % i\<close> for the indices of \<open>range\<close>.\<close>

fun digits :: "nat \<Rightarrow> nat \<Rightarrow> string" where
  "digits 0 n = []"
| "digits (Suc f) n =
     (if n < 10 then [char_of (48 + n)] else digits f (n div 10) @ [char_of (48 + n mod 10)])"

definition str_of_nat :: "nat \<Rightarrow> string" where
  "str_of_nat n = digits (Suc n) n"

subsection \<open>Configuration and collaborators\<close>

record config =
  character_to_index_mapping :: "(string \<times> int) list"
  NUM_CHARS :: int
  NOISE_LENGTH :: nat
  add_character_every :: int
  save_every :: int
  produce_every :: int
  num_characters_to_generate :: int
  D_loss_threshold :: real
  G_loss_threshold :: real

datatype net = Gen | Disc

datatype mode = TrainMode | EvalMode

record ops =
  G_traced :: "tensor \<Rightarrow> tensor list \<Rightarrow> tensor list \<Rightarrow> tensor list"
  D_traced :: "tensor \<Rightarrow> tensor list \<Rightarrow> tensor list \<Rightarrow> tensor"
  G_loss_fn :: "tensor \<Rightarrow> tensor \<Rightarrow> real"
  D_loss_fn :: "tensor \<Rightarrow> tensor \<Rightarrow> real"
  gradient :: "net \<Rightarrow> tensor \<Rightarrow> tensor \<Rightarrow> tensor list \<Rightarrow> tensor list \<Rightarrow> tensor list
                 \<Rightarrow> real \<Rightarrow> tensor"
  G_optim_step :: "tensor \<Rightarrow> tensor \<Rightarrow> tensor \<Rightarrow> tensor \<times> tensor"
  D_optim_step :: "tensor \<Rightarrow> tensor \<Rightarrow> tensor \<Rightarrow> tensor \<times> tensor"
  character_to_one_hot :: "string list list \<Rightarrow> tensor list"
  generate :: "tensor \<Rightarrow> mode \<Rightarrow> string list \<Rightarrow> nat \<Rightarrow> tensor"
  finalizing_transform :: "tensor \<Rightarrow> tensor"
  serialize :: "tensor \<Rightarrow> mode \<Rightarrow> string"
  batches_of :: "string list \<Rightarrow> int \<Rightarrow> (tensor list \<times> string list list \<times> tensor) list"
  gauss :: "nat \<Rightarrow> real"
  unif :: "nat \<Rightarrow> nat"

text \<open>
  \<open>G_traced p z c\<close> and \<open>D_traced p x c\<close> are the traced forward passes with the
  parameters \<open>p\<close>; \<open>gradient n gp dp X c z l\<close> is the gradient of the loss \<open>l\<close> with respect to
  the parameters of the network \<open>n\<close>; an optimizer step takes the optimizer's own state,
  the parameters and their gradients and returns the new parameters and the new optimizer
  state; \<open>generate p m cond style\<close> is \<open>image_utils.generate\<close> on the module \<open>self._G\<close>
  (parameters and mode); \<open>serialize\<close> is what \<open>torch.save\<close> writes for a module;
  \<open>batches_of chars epoch\<close> is one pass over the data loader, whose dataset holds the
  characters \<open>chars\<close>; \<open>gauss n\<close> and \<open>unif n\<close> are the \<open>n\<close>-th draw of numpy's global
  generator read as a normal sample and as an integer.
\<close>

subsection \<open>The state\<close>

datatype event =
    Scalar string real int
  | Image string tensor int
  | Figure string tensor string int

record state =
  G_params :: tensor
  G_grad :: tensor
  G_mode :: mode
  G_optim :: tensor
  D_params :: tensor
  D_grad :: tensor
  D_mode :: mode
  D_optim :: tensor
  current_datetime :: string
  rng_pos :: nat
  writer :: "event list"
  files :: "string \<rightharpoonup> string"
  dataset_chars :: "string list"
  step :: int
  current_char_index :: int
  fixed_latent_points :: "tensor list"

text \<open>
  The fields up to \<open>current_datetime\<close> are the trainer object; \<open>rng_pos\<close> counts the draws
  taken from numpy's generator; \<open>writer\<close> is what the summary writer received, oldest
  first; \<open>files\<close> maps a path to the content last written there; \<open>dataset_chars\<close> are
  the characters added to the dataset. The last three fields are local variables of
  \<open>train\<close>.
\<close>

subsection \<open>Construction\<close>

text \<open>
  \<open>CGAN.__init__\<close>: the time stamp is the argument when it is given and not empty, the
  clock reading otherwise. The argument \<open>s\<close> carries the networks, the optimizers and the
  collaborators as the caller built them.
\<close>

definition CGAN_init :: "state \<Rightarrow> string option \<Rightarrow> string \<Rightarrow> state" where
  "CGAN_init s given now =
     s\<lparr>current_datetime :=
         (case given of None \<Rightarrow> now | Some d \<Rightarrow> if d = [] then now else d)\<rparr>"

subsection \<open>Curriculum\<close>

text \<open>Lines 86 to 88: the epoch-boundary check that unlocks the next character.\<close>

definition unlock_step :: "config \<Rightarrow> int \<Rightarrow> state \<Rightarrow> error + state" where
  "unlock_step cfg epoch s =
     (case divides_epoch epoch (add_character_every cfg) of
        Inl e \<Rightarrow> Inl e
      | Inr hit \<Rightarrow>
          if hit \<and> current_char_index s < NUM_CHARS cfg then
            (case list_get (map fst (character_to_index_mapping cfg)) (current_char_index s) of
               Inl e \<Rightarrow> Inl e
             | Inr ch \<Rightarrow>
                 Inr (s\<lparr>dataset_chars := dataset_chars s @ [ch],
                        current_char_index := current_char_index s + 1\<rparr>))
          else Inr s)"

subsection \<open>Random draws\<close>

text \<open>\<open>numpy.random.randn(rows, cols)\<close>: one draw for each entry.\<close>

definition randn :: "ops \<Rightarrow> nat \<Rightarrow> nat \<Rightarrow> state \<Rightarrow> tensor list \<times> state" where
  "randn ops rows cols s =
     (map (\<lambda>i. map (\<lambda>j. gauss ops (rng_pos s + i * cols + j)) [0..<cols]) [0..<rows],
      s\<lparr>rng_pos := rng_pos s + rows * cols\<rparr>)"

text \<open>\<open>numpy.random.choice(xs)\<close>: one draw; an empty \<open>xs\<close> raises.\<close>

definition choice :: "ops \<Rightarrow> 'a list \<Rightarrow> state \<Rightarrow> error + ('a \<times> state)" where
  "choice ops xs s =
     (if xs = [] then Inl ValueError
      else Inr (xs ! (unif ops (rng_pos s) mod length xs), s\<lparr>rng_pos := rng_pos s + 1\<rparr>))"

subsection \<open>Tensors that remember the networks they were computed from\<close>

text \<open>
  A tensor of the autograd graph is its value together with the networks whose parameters
  it depends on: \<open>backward\<close> adds a gradient to exactly those networks.
\<close>

type_synonym 'a tracked = "'a \<times> net set"

definition detach :: "'a tracked \<Rightarrow> 'a tracked" where
  "detach t = (fst t, {})"

definition G_apply :: "ops \<Rightarrow> state \<Rightarrow> tensor list \<Rightarrow> tensor list \<Rightarrow> tensor list tracked" where
  "G_apply ops s z c = (G_traced ops (G_params s) z c, {Gen})"

definition D_apply :: "ops \<Rightarrow> state \<Rightarrow> tensor list tracked \<Rightarrow> tensor list \<Rightarrow> tensor tracked" where
  "D_apply ops s x c = (D_traced ops (D_params s) (fst x) c, insert Disc (snd x))"

definition loss_apply :: "(tensor \<Rightarrow> tensor \<Rightarrow> real) \<Rightarrow> tensor tracked \<Rightarrow> tensor \<Rightarrow> real tracked" where
  "loss_apply f pred target = (f (fst pred) target, snd pred)"

definition zero_grad :: "tensor \<Rightarrow> tensor" where
  "zero_grad g = map (\<lambda>_. 0) g"

definition backward ::
  "ops \<Rightarrow> tensor list \<Rightarrow> tensor list \<Rightarrow> tensor list \<Rightarrow> real tracked \<Rightarrow> state \<Rightarrow> state" where
  "backward ops X c z l s =
     s\<lparr>G_grad := (if Gen \<in> snd l
                   then map2 (+) (G_grad s)
                          (gradient ops Gen (G_params s) (D_params s) X c z (fst l))
                   else G_grad s),
       D_grad := (if Disc \<in> snd l
                   then map2 (+) (D_grad s)
                          (gradient ops Disc (G_params s) (D_params s) X c z (fst l))
                   else D_grad s)\<rparr>"

text \<open>\<open>self._D_optim.step(None)\<close> and \<open>self._G_optim.step(None)\<close>.\<close>

definition step_D_optim :: "ops \<Rightarrow> state \<Rightarrow> state" where
  "step_D_optim ops s =
     (let r = D_optim_step ops (D_optim s) (D_params s) (D_grad s)
      in s\<lparr>D_params := fst r, D_optim := snd r\<rparr>)"

definition step_G_optim :: "ops \<Rightarrow> state \<Rightarrow> state" where
  "step_G_optim ops s =
     (let r = G_optim_step ops (G_optim s) (G_params s) (G_grad s)
      in s\<lparr>G_params := fst r, G_optim := snd r\<rparr>)"

subsection \<open>One batch\<close>

definition zero_label :: "nat \<Rightarrow> tensor" where
  "zero_label n = replicate n 0"

definition one_label :: "nat \<Rightarrow> tensor" where
  "one_label n = replicate n 1"

definition one_label_coefficient :: "bool \<Rightarrow> real" where
  "one_label_coefficient use_soft_labels = (if use_soft_labels then 0.75 else 1)"

definition scale :: "real \<Rightarrow> tensor \<Rightarrow> tensor" where
  "scale k t = map (\<lambda>x. k * x) t"

definition tmean :: "tensor \<Rightarrow> real" where
  "tmean t = sum_list t / real (length t)"

text \<open>\<open>concatenate([a, b.unsqueeze(-1)], axis=1)\<close>: the column \<open>b\<close> appended to the rows of \<open>a\<close>.\<close>

definition append_column :: "tensor list \<Rightarrow> tensor \<Rightarrow> tensor list" where
  "append_column a b = map2 (\<lambda>row x. row @ [x]) a b"

text \<open>Lines 123 to 129: the forward passes and the losses of the discriminator.\<close>

record d_pass =
  D_real :: "tensor tracked"
  D_fake :: "tensor tracked"
  D_loss_real :: "real tracked"
  D_loss_fake :: "real tracked"
  D_loss :: "real tracked"

definition D_forward ::
  "ops \<Rightarrow> bool \<Rightarrow> state \<Rightarrow> tensor list \<Rightarrow> tensor list \<Rightarrow> tensor list \<Rightarrow> d_pass" where
  "D_forward ops use_soft_labels s X c z =
     (let G_sample = G_apply ops s z c;
          dr = D_apply ops s (X, {}) c;
          df = D_apply ops s (detach G_sample) c;
          lr = loss_apply (D_loss_fn ops) dr
                 (scale (one_label_coefficient use_soft_labels) (one_label (length X)));
          lf = loss_apply (D_loss_fn ops) df (zero_label (length X))
      in \<lparr>D_real = dr, D_fake = df, D_loss_real = lr, D_loss_fake = lf,
           D_loss = ((fst lr + fst lf) / 2, snd lr \<union> snd lf)\<rparr>)"

text \<open>Lines 116 to 139: the discriminator's half of the batch.\<close>

definition D_half_step ::
  "config \<Rightarrow> ops \<Rightarrow> bool \<Rightarrow> tensor list \<Rightarrow> tensor list \<Rightarrow> state \<Rightarrow> state" where
  "D_half_step cfg ops use_soft_labels X c s =
     (let s1 = s\<lparr>D_grad := zero_grad (D_grad s)\<rparr>;
          (z, s2) = randn ops (length X) (NOISE_LENGTH cfg) s1;
          p = D_forward ops use_soft_labels s2 X c z;
          s3 = (if fst (D_loss p) > D_loss_threshold cfg
                then step_D_optim ops (backward ops X c z (D_loss p) s2) else s2)
      in s3\<lparr>writer := writer s3 @
              [Scalar ''Loss/Discriminator'' (fst (D_loss p)) (step s3),
               Scalar ''Discriminator response/to real images (average)''
                 (tmean (fst (D_real p))) (step s3),
               Scalar ''Discriminator response/to fake images (average)''
                 (tmean (fst (D_fake p))) (step s3)]\<rparr>)"

text \<open>Lines 146 to 149: the forward pass and the loss of the generator.\<close>

definition G_forward :: "ops \<Rightarrow> state \<Rightarrow> tensor list \<Rightarrow> tensor list \<Rightarrow> nat \<Rightarrow> real tracked" where
  "G_forward ops s c z n =
     (let G_sample = G_apply ops s z c;
          df = D_apply ops s G_sample c
      in loss_apply (G_loss_fn ops) df (one_label n))"

text \<open>Lines 141 to 154: the generator's half of the batch.\<close>

definition G_half_step ::
  "config \<Rightarrow> ops \<Rightarrow> tensor list \<Rightarrow> tensor list \<Rightarrow> state \<Rightarrow> state" where
  "G_half_step cfg ops X c s =
     (let s1 = s\<lparr>G_grad := zero_grad (G_grad s)\<rparr>;
          (z, s2) = randn ops (length X) (NOISE_LENGTH cfg) s1;
          l = G_forward ops s2 c z (length X);
          s3 = (if fst l > G_loss_threshold cfg
                then step_G_optim ops (backward ops X c z l s2) else s2)
      in s3\<lparr>writer := writer s3 @ [Scalar ''Loss/Generator'' (fst l) (step s3)]\<rparr>)"

text \<open>Lines 95 to 154: the body of the loop over the batches.\<close>

definition process_batch ::
  "config \<Rightarrow> ops \<Rightarrow> bool \<Rightarrow> state \<Rightarrow> tensor list \<times> string list list \<times> tensor \<Rightarrow> state" where
  "process_batch cfg ops use_soft_labels s b =
     (case b of (X, labels, style) \<Rightarrow>
        if length X = 1 then s
        else
          (let s0 = s\<lparr>step := step s + 1\<rparr>;
               c = append_column (character_to_one_hot ops labels) style
           in G_half_step cfg ops X c (D_half_step cfg ops use_soft_labels X c s0)))"

definition run_batches :: "config \<Rightarrow> ops \<Rightarrow> bool \<Rightarrow> int \<Rightarrow> state \<Rightarrow> state" where
  "run_batches cfg ops use_soft_labels epoch s =
     foldl (process_batch cfg ops use_soft_labels) s (batches_of ops (dataset_chars s) epoch)"

subsection \<open>Checkpoints\<close>

definition model_path :: "string \<Rightarrow> string \<Rightarrow> string" where
  "model_path role run_id = ''./data/models/'' @ role @ ''_'' @ run_id @ ''.pt''"

text \<open>Lines 172 and 173: \<open>torch.save\<close> of the generator, then of the discriminator.\<close>

definition save_models :: "ops \<Rightarrow> state \<Rightarrow> state" where
  "save_models ops s =
     s\<lparr>files := (files s)
         (model_path ''G'' (current_datetime s) \<mapsto> serialize ops (G_params s) (G_mode s),
          model_path ''D'' (current_datetime s) \<mapsto> serialize ops (D_params s) (D_mode s))\<rparr>"

subsection \<open>Evaluation images\<close>

definition letters_to_watch :: "config \<Rightarrow> string list" where
  "letters_to_watch cfg = map fst (character_to_index_mapping cfg)"

text \<open>Lines 66 to 73: the conditioning of the fixed latent points.\<close>

definition fixed_conditioning_inputs :: "config \<Rightarrow> ops \<Rightarrow> tensor list" where
  "fixed_conditioning_inputs cfg ops =
     (let n = length (letters_to_watch cfg);
          zero_conditioning = replicate (2 * n) '' '';
          current_char_conditioning = letters_to_watch cfg @ letters_to_watch cfg;
          character_condition =
            character_to_one_hot ops
              [zero_conditioning, current_char_conditioning, zero_conditioning];
          styles = replicate n 0 @ replicate n 1
      in append_column character_condition styles)"

text \<open>Lines 183 to 189: the images of the fixed latent points and their tags.\<close>

definition fixed_images :: "config \<Rightarrow> ops \<Rightarrow> state \<Rightarrow> tensor list" where
  "fixed_images cfg ops s =
     G_traced ops (G_params s) (fixed_latent_points s) (fixed_conditioning_inputs cfg ops)"

definition fixed_point_events :: "config \<Rightarrow> ops \<Rightarrow> int \<Rightarrow> state \<Rightarrow> event list" where
  "fixed_point_events cfg ops epoch s =
     (let images = fixed_images cfg ops s
      in map (\<lambda>(image, letter).
               Image (''Fixed latent points/'' @ letter @ ''_P'')
                 (finalizing_transform ops image) epoch)
           (zip (slice_to images (NUM_CHARS cfg)) (letters_to_watch cfg)) @
         map (\<lambda>(image, letter).
               Image (''Fixed latent points/'' @ letter @ ''_G'')
                 (finalizing_transform ops image) epoch)
           (zip (slice_from images (NUM_CHARS cfg)) (letters_to_watch cfg)))"

text \<open>Lines 192 and 193: the characters a random sample is drawn from.\<close>

definition random_characters_to_generate :: "config \<Rightarrow> int \<Rightarrow> string list" where
  "random_characters_to_generate cfg cursor =
     map fst (filter (\<lambda>(key, v). v < cursor - 1) (character_to_index_mapping cfg)) @ ['' '']"

definition caption :: "string list \<Rightarrow> nat \<Rightarrow> string" where
  "caption cond style =
     ''prev: '' @ cond ! 0 @ '', curr: '' @ cond ! 1 @ '', next: '' @ cond ! 2 @
     '', style: '' @ str_of_nat style"

text \<open>Lines 196 to 202: one random sample, the \<open>i\<close>-th of the epoch.\<close>

definition random_sample ::
  "ops \<Rightarrow> int \<Rightarrow> string list \<Rightarrow> nat \<Rightarrow> state \<Rightarrow> error + state" where
  "random_sample ops epoch chars i s =
     (case choice ops chars s of
        Inl e \<Rightarrow> Inl e
      | Inr (ch, s1) \<Rightarrow>
          (case choice ops [0, 1] s1 of
             Inl e \<Rightarrow> Inl e
           | Inr (style, s2) \<Rightarrow>
               (let character_conditioning = ['' '', ch, '' ''];
                    image = finalizing_transform ops
                              (generate ops (G_params s2) (G_mode s2)
                                 character_conditioning style)
                in Inr (s2\<lparr>writer := writer s2 @
                          [Figure (''Random characters/'' @ str_of_nat i) image
                             (caption character_conditioning style) epoch]\<rparr>))))"

fun random_samples ::
  "ops \<Rightarrow> int \<Rightarrow> string list \<Rightarrow> nat list \<Rightarrow> state \<Rightarrow> error + state" where
  "random_samples ops epoch chars [] s = Inr s"
| "random_samples ops epoch chars (i # is) s =
     (case random_sample ops epoch chars i s of
        Inl e \<Rightarrow> Inl e
      | Inr s1 \<Rightarrow> random_samples ops epoch chars is s1)"

text \<open>Lines 179 to 202: the visualization.\<close>

definition visualize :: "config \<Rightarrow> ops \<Rightarrow> int \<Rightarrow> state \<Rightarrow> error + state" where
  "visualize cfg ops epoch s =
     (let s1 = s\<lparr>G_mode := EvalMode\<rparr>;
          s2 = s1\<lparr>writer := writer s1 @ fixed_point_events cfg ops epoch s1\<rparr>;
          chars = random_characters_to_generate cfg (current_char_index s2)
      in if chars \<noteq> []
         then random_samples ops epoch chars
                [0..<nat (num_characters_to_generate cfg)] s2
         else Inr s2)"

subsection \<open>Epochs\<close>

text \<open>Lines 84 to 204: the body of the loop over the epochs.\<close>

definition epoch_step :: "config \<Rightarrow> ops \<Rightarrow> bool \<Rightarrow> int \<Rightarrow> state \<Rightarrow> error + state" where
  "epoch_step cfg ops use_soft_labels epoch s =
     (case unlock_step cfg epoch s of
        Inl e \<Rightarrow> Inl e
      | Inr s1 \<Rightarrow>
          (let s2 = s1\<lparr>G_mode := TrainMode, D_mode := TrainMode\<rparr>;
               s3 = run_batches cfg ops use_soft_labels epoch s2
           in case divides_epoch epoch (save_every cfg) of
                Inl e \<Rightarrow> Inl e
              | Inr save_hit \<Rightarrow>
                  (let s4 = (if save_hit then save_models ops s3 else s3)
                   in case divides_epoch epoch (produce_every cfg) of
                        Inl e \<Rightarrow> Inl e
                      | Inr produce_hit \<Rightarrow>
                          if produce_hit then visualize cfg ops epoch s4 else Inr s4)))"

fun run_epochs :: "config \<Rightarrow> ops \<Rightarrow> bool \<Rightarrow> int list \<Rightarrow> state \<Rightarrow> error + state" where
  "run_epochs cfg ops use_soft_labels [] s = Inr s"
| "run_epochs cfg ops use_soft_labels (epoch # es) s =
     (case epoch_step cfg ops use_soft_labels epoch s of
        Inl e \<Rightarrow> Inl e
      | Inr s1 \<Rightarrow> run_epochs cfg ops use_soft_labels es s1)"

text \<open>Lines 54 to 83: what \<open>train\<close> does before the first epoch.\<close>

definition train_setup :: "config \<Rightarrow> ops \<Rightarrow> string \<Rightarrow> state \<Rightarrow> error + state" where
  "train_setup cfg ops next_letter_to_add s =
     (case dict_get (character_to_index_mapping cfg) next_letter_to_add of
        Inl e \<Rightarrow> Inl e
      | Inr idx \<Rightarrow>
          (let (pts, s1) = randn ops (2 * length (letters_to_watch cfg)) (NOISE_LENGTH cfg) s
           in Inr (s1\<lparr>step := 0, current_char_index := idx, fixed_latent_points := pts\<rparr>)))"

definition train :: "config \<Rightarrow> ops \<Rightarrow> int \<Rightarrow> string \<Rightarrow> bool \<Rightarrow> state \<Rightarrow> error + state" where
  "train cfg ops n_epochs next_letter_to_add use_soft_labels s =
     (case train_setup cfg ops next_letter_to_add s of
        Inl e \<Rightarrow> Inl e
      | Inr s1 \<Rightarrow> run_epochs cfg ops use_soft_labels [1..n_epochs] s1)"

subsection \<open>The values of one batch\<close>

text \<open>
  The names of what the loop body computes for the batch \<open>b\<close> when it starts in the
  state \<open>s\<close>: the condition \<open>c\<close>, the discriminator's pass, the state between the two
  halves, and the generator's loss.
\<close>

definition batch_condition :: "ops \<Rightarrow> tensor list \<times> string list list \<times> tensor \<Rightarrow> tensor list" where
  "batch_condition ops b =
     (case b of (X, labels, style) \<Rightarrow> append_column (character_to_one_hot ops labels) style)"

definition batch_D_pass ::
  "config \<Rightarrow> ops \<Rightarrow> bool \<Rightarrow> state \<Rightarrow> tensor list \<times> string list list \<times> tensor \<Rightarrow> d_pass" where
  "batch_D_pass cfg ops use_soft_labels s b =
     D_forward ops use_soft_labels s (fst b) (batch_condition ops b)
       (fst (randn ops (length (fst b)) (NOISE_LENGTH cfg) s))"

definition after_D_half ::
  "config \<Rightarrow> ops \<Rightarrow> bool \<Rightarrow> state \<Rightarrow> tensor list \<times> string list list \<times> tensor \<Rightarrow> state" where
  "after_D_half cfg ops use_soft_labels s b =
     D_half_step cfg ops use_soft_labels (fst b) (batch_condition ops b)
       (s\<lparr>step := step s + 1\<rparr>)"

definition batch_G_loss ::
  "config \<Rightarrow> ops \<Rightarrow> bool \<Rightarrow> state \<Rightarrow> tensor list \<times> string list list \<times> tensor \<Rightarrow> real tracked" where
  "batch_G_loss cfg ops use_soft_labels s b =
     (let sD = after_D_half cfg ops use_soft_labels s b
      in G_forward ops sD (batch_condition ops b)
           (fst (randn ops (length (fst b)) (NOISE_LENGTH cfg) sD)) (length (fst b)))"

subsection \<open>A small run\<close>

text \<open>
  The vocabulary of the specification's scenario: the blank, \<open>a\<close> and \<open>b\<close>, a character
  unlocked every second epoch, one batch of two examples in every epoch. The collaborators
  are the simplest of their types.
\<close>

definition example_config :: config where
  "example_config =
     \<lparr>character_to_index_mapping = [('' '', 0), (''a'', 1), (''b'', 2)],
      NUM_CHARS = 3, NOISE_LENGTH = 1, add_character_every = 2, save_every = 1,
      produce_every = 1, num_characters_to_generate = 1,
      D_loss_threshold = 1 / 2, G_loss_threshold = 1 / 2\<rparr>"

definition example_batch :: "tensor list \<times> string list list \<times> tensor" where
  "example_batch = ([[0], [0]], [['' '', '' ''], [''a'', ''a''], ['' '', '' '']], [0, 1])"

definition example_ops :: ops where
  "example_ops =
     \<lparr>G_traced = (\<lambda>p z c. z),
      D_traced = (\<lambda>p x c. map (\<lambda>_. 0) x),
      G_loss_fn = (\<lambda>pred target. 0),
      D_loss_fn = (\<lambda>pred target. 1),
      gradient = (\<lambda>n gp dp X c z l. [1]),
      G_optim_step = (\<lambda>opt p g. (map2 (+) p g, opt)),
      D_optim_step = (\<lambda>opt p g. (map2 (+) p g, opt)),
      character_to_one_hot = (\<lambda>ls. case ls of [] \<Rightarrow> [] | l # _ \<Rightarrow> map (\<lambda>_. []) l),
      generate = (\<lambda>p m cond style. [real style]),
      finalizing_transform = (\<lambda>image. image),
      serialize = (\<lambda>p m. if m = TrainMode then ''train'' else ''eval''),
      batches_of = (\<lambda>chars epoch. [example_batch]),
      gauss = (\<lambda>n. real n),
      unif = (\<lambda>n. n)\<rparr>"

definition example_state :: state where
  "example_state =
     \<lparr>G_params = [0], G_grad = [0], G_mode = TrainMode, G_optim = [],
      D_params = [0], D_grad = [0], D_mode = TrainMode, D_optim = [],
      current_datetime = ''run'', rng_pos = 0, writer = [], files = Map.empty,
      dataset_chars = ['' ''], step = 0, current_char_index = 1,
      fixed_latent_points = []\<rparr>"

section \<open>Properties\<close>

subsection \<open>What the halves of a batch change\<close>

lemma randn_state:
  "snd (randn ops rows cols s) = s\<lparr>rng_pos := rng_pos s + rows * cols\<rparr>"
  by (simp add: randn_def)

lemma D_forward_deps:
  "snd (D_loss (D_forward ops b s X c z)) = {Disc}"
  by (simp add: D_forward_def D_apply_def G_apply_def detach_def loss_apply_def Let_def)

lemma D_forward_params:
  "G_params s = G_params t \<Longrightarrow> D_params s = D_params t \<Longrightarrow>
   D_forward ops b s X c z = D_forward ops b t X c z"
  by (simp add: D_forward_def D_apply_def G_apply_def detach_def loss_apply_def Let_def)

lemma backward_D_only:
  "snd l = {Disc} \<Longrightarrow>
   backward ops X c z l s =
     s\<lparr>D_grad := map2 (+) (D_grad s) (gradient ops Disc (G_params s) (D_params s) X c z (fst l))\<rparr>"
  by (simp add: backward_def)

lemma D_half_step_frame:
  "G_params (D_half_step cfg ops b X c s) = G_params s"
  "G_grad (D_half_step cfg ops b X c s) = G_grad s"
  "G_optim (D_half_step cfg ops b X c s) = G_optim s"
  "G_mode (D_half_step cfg ops b X c s) = G_mode s"
  "D_mode (D_half_step cfg ops b X c s) = D_mode s"
  "current_datetime (D_half_step cfg ops b X c s) = current_datetime s"
  "step (D_half_step cfg ops b X c s) = step s"
  "current_char_index (D_half_step cfg ops b X c s) = current_char_index s"
  "fixed_latent_points (D_half_step cfg ops b X c s) = fixed_latent_points s"
  "files (D_half_step cfg ops b X c s) = files s"
  "dataset_chars (D_half_step cfg ops b X c s) = dataset_chars s"
  by (simp_all add: D_half_step_def randn_def Let_def step_D_optim_def backward_D_only D_forward_deps)

lemma G_half_step_frame:
  "D_params (G_half_step cfg ops X c s) = D_params s"
  "D_optim (G_half_step cfg ops X c s) = D_optim s"
  "G_mode (G_half_step cfg ops X c s) = G_mode s"
  "D_mode (G_half_step cfg ops X c s) = D_mode s"
  "current_datetime (G_half_step cfg ops X c s) = current_datetime s"
  "step (G_half_step cfg ops X c s) = step s"
  "current_char_index (G_half_step cfg ops X c s) = current_char_index s"
  "fixed_latent_points (G_half_step cfg ops X c s) = fixed_latent_points s"
  "files (G_half_step cfg ops X c s) = files s"
  "dataset_chars (G_half_step cfg ops X c s) = dataset_chars s"
  by (simp_all add: G_half_step_def randn_def Let_def step_G_optim_def backward_def)

lemma process_batch_frame:
  "G_mode (process_batch cfg ops b s x) = G_mode s"
  "D_mode (process_batch cfg ops b s x) = D_mode s"
  "current_datetime (process_batch cfg ops b s x) = current_datetime s"
  "current_char_index (process_batch cfg ops b s x) = current_char_index s"
  "fixed_latent_points (process_batch cfg ops b s x) = fixed_latent_points s"
  "files (process_batch cfg ops b s x) = files s"
  "dataset_chars (process_batch cfg ops b s x) = dataset_chars s"
  by (simp_all add: process_batch_def Let_def G_half_step_frame D_half_step_frame split: prod.splits)

lemma foldl_process_batch_frame:
  "G_mode (foldl (process_batch cfg ops b) s xs) = G_mode s"
  "D_mode (foldl (process_batch cfg ops b) s xs) = D_mode s"
  "current_datetime (foldl (process_batch cfg ops b) s xs) = current_datetime s"
  "current_char_index (foldl (process_batch cfg ops b) s xs) = current_char_index s"
  "fixed_latent_points (foldl (process_batch cfg ops b) s xs) = fixed_latent_points s"
  "files (foldl (process_batch cfg ops b) s xs) = files s"
  "dataset_chars (foldl (process_batch cfg ops b) s xs) = dataset_chars s"
  by (induction xs arbitrary: s; simp add: process_batch_frame)+


lemma D_half_step_unfold:
  "D_half_step cfg ops b X c s =
     (let z = fst (randn ops (length X) (NOISE_LENGTH cfg) s);
          p = D_forward ops b s X c z;
          s2 = s\<lparr>D_grad := zero_grad (D_grad s),
                 rng_pos := rng_pos s + length X * NOISE_LENGTH cfg\<rparr>;
          s3 = (if fst (D_loss p) > D_loss_threshold cfg
                then step_D_optim ops (backward ops X c z (D_loss p) s2) else s2)
      in s3\<lparr>writer := writer s @
              [Scalar ''Loss/Discriminator'' (fst (D_loss p)) (step s),
               Scalar ''Discriminator response/to real images (average)''
                 (tmean (fst (D_real p))) (step s),
               Scalar ''Discriminator response/to fake images (average)''
                 (tmean (fst (D_fake p))) (step s)]\<rparr>)"
proof -
  have eq: "D_forward ops b (s\<lparr>D_grad := g, rng_pos := r\<rparr>) X c z = D_forward ops b s X c z"
    for g r z
    by (rule D_forward_params) simp_all
  show ?thesis
    by (simp add: D_half_step_def randn_def Let_def eq step_D_optim_def backward_D_only
        D_forward_deps)
qed

lemma G_forward_params:
  "G_params s = G_params t \<Longrightarrow> D_params s = D_params t \<Longrightarrow>
   G_forward ops s c z n = G_forward ops t c z n"
  by (simp add: G_forward_def D_apply_def G_apply_def loss_apply_def Let_def)

lemma G_forward_deps:
  "snd (G_forward ops s c z n) = {Gen, Disc}"
  by (auto simp add: G_forward_def D_apply_def G_apply_def loss_apply_def Let_def)

lemma G_half_step_unfold:
  "G_half_step cfg ops X c s =
     (let z = fst (randn ops (length X) (NOISE_LENGTH cfg) s);
          l = G_forward ops s c z (length X);
          s2 = s\<lparr>G_grad := zero_grad (G_grad s),
                 rng_pos := rng_pos s + length X * NOISE_LENGTH cfg\<rparr>;
          s3 = (if fst l > G_loss_threshold cfg
                then step_G_optim ops (backward ops X c z l s2) else s2)
      in s3\<lparr>writer := writer s @ [Scalar ''Loss/Generator'' (fst l) (step s)]\<rparr>)"
proof -
  have eq: "G_forward ops (s\<lparr>G_grad := g, rng_pos := r\<rparr>) c z n = G_forward ops s c z n"
    for g r z n
    by (rule G_forward_params) simp_all
  show ?thesis
    by (simp add: G_half_step_def randn_def Let_def eq step_G_optim_def backward_def)
qed

lemma process_batch_nondegenerate:
  "length (fst b) \<noteq> 1 \<Longrightarrow>
   process_batch cfg ops soft s b =
     G_half_step cfg ops (fst b) (batch_condition ops b) (after_D_half cfg ops soft s b)"
  by (cases b) (simp add: process_batch_def after_D_half_def batch_condition_def Let_def)

lemma after_D_half_writer:
  "writer (after_D_half cfg ops soft s b) =
     writer s @
       (let p = batch_D_pass cfg ops soft s b
        in [Scalar ''Loss/Discriminator'' (fst (D_loss p)) (step s + 1),
            Scalar ''Discriminator response/to real images (average)''
              (tmean (fst (D_real p))) (step s + 1),
            Scalar ''Discriminator response/to fake images (average)''
              (tmean (fst (D_fake p))) (step s + 1)])"
proof -
  have eq: "D_forward ops soft (s\<lparr>step := k\<rparr>) X c z = D_forward ops soft s X c z" for k X c z
    by (rule D_forward_params) simp_all
  show ?thesis
    by (simp add: after_D_half_def D_half_step_unfold batch_D_pass_def Let_def eq randn_def)
qed

lemma after_D_half_discriminator:
  "(D_params (after_D_half cfg ops soft s b), D_optim (after_D_half cfg ops soft s b)) =
     (let X = fst b; c = batch_condition ops b;
          z = fst (randn ops (length X) (NOISE_LENGTH cfg) s);
          dl = fst (D_loss (batch_D_pass cfg ops soft s b))
      in if dl > D_loss_threshold cfg
         then D_optim_step ops (D_optim s) (D_params s)
                (map2 (+) (zero_grad (D_grad s))
                   (gradient ops Disc (G_params s) (D_params s) X c z dl))
         else (D_params s, D_optim s))"
proof -
  have eq: "D_forward ops soft (s\<lparr>step := k\<rparr>) X c z = D_forward ops soft s X c z" for k X c z
    by (rule D_forward_params) simp_all
  show ?thesis
    by (simp add: after_D_half_def D_half_step_unfold batch_D_pass_def Let_def eq randn_def
        step_D_optim_def backward_D_only D_forward_deps)
qed

lemma after_D_half_frame:
  "G_params (after_D_half cfg ops soft s b) = G_params s"
  "G_grad (after_D_half cfg ops soft s b) = G_grad s"
  "G_optim (after_D_half cfg ops soft s b) = G_optim s"
  "step (after_D_half cfg ops soft s b) = step s + 1"
  by (simp_all add: after_D_half_def D_half_step_frame)

lemma G_half_step_writer:
  "writer (G_half_step cfg ops X c s) =
     writer s @
       [Scalar ''Loss/Generator''
          (fst (G_forward ops s c (fst (randn ops (length X) (NOISE_LENGTH cfg) s)) (length X)))
          (step s)]"
  by (simp add: G_half_step_unfold Let_def)

lemma G_half_step_generator:
  "(G_params (G_half_step cfg ops X c s), G_optim (G_half_step cfg ops X c s)) =
     (let z = fst (randn ops (length X) (NOISE_LENGTH cfg) s);
          gl = fst (G_forward ops s c z (length X))
      in if gl > G_loss_threshold cfg
         then G_optim_step ops (G_optim s) (G_params s)
                (map2 (+) (zero_grad (G_grad s))
                   (gradient ops Gen (G_params s) (D_params s) X c z gl))
         else (G_params s, G_optim s))"
  by (simp add: G_half_step_unfold Let_def step_G_optim_def backward_def G_forward_deps)

subsection \<open>The stability gate\<close>

text \<open>
  C1. For a batch whose size is not 1, each side's optimizer is stepped exactly when that
  side's loss is strictly above its threshold: then the new parameters and optimizer state
  are the result of the optimizer's step on the old ones with the gradient of this batch;
  otherwise the side's parameters and optimizer state after the batch are the ones before
  it. In both cases the writer receives the discriminator's loss and the generator's loss
  of the batch, tagged with the step of the batch.
\<close>

theorem stability_gate:
  assumes nd: "length (fst b) \<noteq> 1"
  shows
    "let s' = process_batch cfg ops use_soft_labels s b;
         X = fst b; c = batch_condition ops b;
         zD = fst (randn ops (length X) (NOISE_LENGTH cfg) s);
         dl = fst (D_loss (batch_D_pass cfg ops use_soft_labels s b));
         sD = after_D_half cfg ops use_soft_labels s b;
         zG = fst (randn ops (length X) (NOISE_LENGTH cfg) sD);
         gl = fst (batch_G_loss cfg ops use_soft_labels s b)
     in (if dl > D_loss_threshold cfg
         then (D_params s', D_optim s') =
                D_optim_step ops (D_optim s) (D_params s)
                  (map2 (+) (zero_grad (D_grad s))
                     (gradient ops Disc (G_params s) (D_params s) X c zD dl))
         else D_params s' = D_params s \<and> D_optim s' = D_optim s)
      \<and> (if gl > G_loss_threshold cfg
         then (G_params s', G_optim s') =
                G_optim_step ops (G_optim s) (G_params s)
                  (map2 (+) (zero_grad (G_grad s))
                     (gradient ops Gen (G_params s) (D_params sD) X c zG gl))
         else G_params s' = G_params s \<and> G_optim s' = G_optim s)
      \<and> Scalar ''Loss/Discriminator'' dl (step s + 1) \<in> set (writer s')
      \<and> Scalar ''Loss/Generator'' gl (step s + 1) \<in> set (writer s')"
proof -
  define sD where "sD = after_D_half cfg ops use_soft_labels s b"
  define s' where "s' = process_batch cfg ops use_soft_labels s b"
  have s': "s' = G_half_step cfg ops (fst b) (batch_condition ops b) sD"
    unfolding s'_def sD_def using nd by (rule process_batch_nondegenerate)
  have D: "(D_params s', D_optim s') = (D_params sD, D_optim sD)"
    by (simp add: s' G_half_step_frame)
  have Dpart:
    "if fst (D_loss (batch_D_pass cfg ops use_soft_labels s b)) > D_loss_threshold cfg
     then (D_params s', D_optim s') =
            D_optim_step ops (D_optim s) (D_params s)
              (map2 (+) (zero_grad (D_grad s))
                 (gradient ops Disc (G_params s) (D_params s) (fst b) (batch_condition ops b)
                    (fst (randn ops (length (fst b)) (NOISE_LENGTH cfg) s))
                    (fst (D_loss (batch_D_pass cfg ops use_soft_labels s b)))))
     else D_params s' = D_params s \<and> D_optim s' = D_optim s"
    using after_D_half_discriminator [of cfg ops use_soft_labels s b] D
    by (simp add: sD_def Let_def split: if_splits)
  have gl: "fst (batch_G_loss cfg ops use_soft_labels s b) =
        fst (G_forward ops sD (batch_condition ops b)
               (fst (randn ops (length (fst b)) (NOISE_LENGTH cfg) sD)) (length (fst b)))"
    by (simp add: batch_G_loss_def sD_def Let_def)
  have Gpart:
    "if fst (batch_G_loss cfg ops use_soft_labels s b) > G_loss_threshold cfg
     then (G_params s', G_optim s') =
            G_optim_step ops (G_optim s) (G_params s)
              (map2 (+) (zero_grad (G_grad s))
                 (gradient ops Gen (G_params s) (D_params sD) (fst b) (batch_condition ops b)
                    (fst (randn ops (length (fst b)) (NOISE_LENGTH cfg) sD))
                    (fst (batch_G_loss cfg ops use_soft_labels s b))))
     else G_params s' = G_params s \<and> G_optim s' = G_optim s"
    using G_half_step_generator [of cfg ops "fst b" "batch_condition ops b" sD]
    by (simp add: s' gl Let_def after_D_half_frame sD_def split: if_splits)
  have w: "writer s' = writer sD @
        [Scalar ''Loss/Generator'' (fst (batch_G_loss cfg ops use_soft_labels s b)) (step s + 1)]"
    by (simp add: s' G_half_step_writer gl) (simp add: sD_def after_D_half_frame)
  have logD: "Scalar ''Loss/Discriminator''
        (fst (D_loss (batch_D_pass cfg ops use_soft_labels s b))) (step s + 1) \<in> set (writer s')"
    by (simp add: w sD_def after_D_half_writer Let_def)
  have logG: "Scalar ''Loss/Generator''
        (fst (batch_G_loss cfg ops use_soft_labels s b)) (step s + 1) \<in> set (writer s')"
    by (simp add: w)
  show ?thesis
    using Dpart Gpart logD logG unfolding Let_def s'_def sD_def by simp
qed


lemmas example_defs =
  example_config_def example_ops_def example_state_def example_batch_def

theorem stability_gate_witness:
  "length (fst example_batch) \<noteq> 1 \<and>
   D_params (process_batch example_config example_ops False example_state example_batch) = [1] \<and>
   G_params (process_batch example_config example_ops False example_state example_batch) = [0]"
  using stability_gate [of example_batch example_config example_ops False example_state]
  by (simp add: example_defs Let_def batch_D_pass_def batch_G_loss_def D_forward_def
      G_forward_def loss_apply_def zero_grad_def)

subsection \<open>Batches of one example\<close>

text \<open>
  C3. A batch of size 1 leaves the whole state as it was: the step counter, both networks,
  both optimizers and the writer. A batch of any other size (so every batch of size above
  1) adds exactly one to the step counter, and the four scalars the writer receives for it,
  three from the discriminator's half and one from the generator's half, carry that one
  new step.
\<close>

theorem degenerate_batch_skip:
  "(length (fst b) = 1 \<longrightarrow> process_batch cfg ops use_soft_labels s b = s) \<and>
   (length (fst b) \<noteq> 1 \<longrightarrow>
      (let s' = process_batch cfg ops use_soft_labels s b;
           p = batch_D_pass cfg ops use_soft_labels s b
       in step s' = step s + 1 \<and>
          writer s' = writer s @
            [Scalar ''Loss/Discriminator'' (fst (D_loss p)) (step s + 1),
             Scalar ''Discriminator response/to real images (average)''
               (tmean (fst (D_real p))) (step s + 1),
             Scalar ''Discriminator response/to fake images (average)''
               (tmean (fst (D_fake p))) (step s + 1),
             Scalar ''Loss/Generator''
               (fst (batch_G_loss cfg ops use_soft_labels s b)) (step s + 1)]))"
proof (intro conjI impI)
  assume "length (fst b) = 1"
  then show "process_batch cfg ops use_soft_labels s b = s"
    by (cases b) (simp add: process_batch_def)
next
  assume nd: "length (fst b) \<noteq> 1"
  have eq: "process_batch cfg ops use_soft_labels s b =
      G_half_step cfg ops (fst b) (batch_condition ops b)
        (after_D_half cfg ops use_soft_labels s b)"
    using nd by (rule process_batch_nondegenerate)
  show "let s' = process_batch cfg ops use_soft_labels s b;
            p = batch_D_pass cfg ops use_soft_labels s b
        in step s' = step s + 1 \<and>
           writer s' = writer s @
             [Scalar ''Loss/Discriminator'' (fst (D_loss p)) (step s + 1),
              Scalar ''Discriminator response/to real images (average)''
                (tmean (fst (D_real p))) (step s + 1),
              Scalar ''Discriminator response/to fake images (average)''
                (tmean (fst (D_fake p))) (step s + 1),
              Scalar ''Loss/Generator''
                (fst (batch_G_loss cfg ops use_soft_labels s b)) (step s + 1)]"
    by (simp add: eq Let_def G_half_step_frame G_half_step_writer after_D_half_frame
        after_D_half_writer batch_G_loss_def)
qed

theorem degenerate_batch_skip_witness:
  "length (fst ([[0]], [[''a'']], [0])) = 1 \<and>
   process_batch example_config example_ops False example_state ([[0]], [[''a'']], [0])
     = example_state \<and>
   length (fst example_batch) \<noteq> 1 \<and>
   step (process_batch example_config example_ops False example_state example_batch) = 1"
  using degenerate_batch_skip [of "([[0]], [[''a'']], [0])" example_config example_ops False
      example_state]
    degenerate_batch_skip [of example_batch example_config example_ops False example_state]
  by (simp add: Let_def) (simp add: example_defs)

subsection \<open>Loss targets\<close>

text \<open>
  C4. The discriminator's loss on the real examples is taken against the target 0.75 when
  soft labels are on and 1 when they are off, in every position; its loss on the fake
  examples is taken against 0 and the generator's loss against 1, whatever the flag; the
  soft target is strictly below the plain one in every position.
\<close>

theorem label_targets:
  "let n = length (fst b);
       p = batch_D_pass cfg ops use_soft_labels s b;
       sD = after_D_half cfg ops use_soft_labels s b;
       c = batch_condition ops b;
       zG = fst (randn ops n (NOISE_LENGTH cfg) sD)
   in D_loss_real p =
        loss_apply (D_loss_fn ops) (D_real p)
          (replicate n (if use_soft_labels then 0.75 * 1 else 1 * 1)) \<and>
      D_loss_fake p = loss_apply (D_loss_fn ops) (D_fake p) (replicate n 0) \<and>
      batch_G_loss cfg ops use_soft_labels s b =
        loss_apply (G_loss_fn ops) (D_apply ops sD (G_apply ops sD zG c) c) (replicate n 1) \<and>
      (\<forall>i<n. scale (one_label_coefficient True) (one_label n) ! i
               < scale (one_label_coefficient False) (one_label n) ! i)"
  by (simp add: Let_def batch_D_pass_def batch_G_loss_def D_forward_def G_forward_def
      scale_def one_label_def zero_label_def one_label_coefficient_def)

theorem label_targets_witness:
  "fst (D_loss_real (batch_D_pass example_config example_ops True example_state example_batch))
     = D_loss_fn example_ops [0, 0] [0.75, 0.75] \<and>
   scale (one_label_coefficient True) (one_label 2) ! 0
     < scale (one_label_coefficient False) (one_label 2) ! 0"
proof -
  have two: "replicate 2 x = [x, x]" for x :: real
    by (simp add: numeral_2_eq_2)
  have len: "length (fst example_batch) = 2"
    by (simp add: example_batch_def)
  have dr: "fst (D_real (batch_D_pass example_config example_ops True example_state
      example_batch)) = [0, 0]"
    by (simp add: batch_D_pass_def D_forward_def D_apply_def Let_def example_defs)
  show ?thesis
    using label_targets [of example_batch example_config example_ops True example_state]
    by (simp add: Let_def len two dr loss_apply_def)
qed

text \<open>
  C5. For a batch whose size is not 1 (so every batch of size above 1), the discriminator's
  loss is half the sum of its loss on the real examples and its loss on the fake ones, and
  this is the value the writer receives as the discriminator's loss of the batch.
\<close>

theorem D_loss_is_mean:
  assumes "length (fst b) \<noteq> 1"
  shows
    "let p = batch_D_pass cfg ops use_soft_labels s b
     in fst (D_loss p) = (fst (D_loss_real p) + fst (D_loss_fake p)) / 2 \<and>
        Scalar ''Loss/Discriminator'' ((fst (D_loss_real p) + fst (D_loss_fake p)) / 2)
          (step s + 1)
          \<in> set (writer (process_batch cfg ops use_soft_labels s b))"
proof -
  have m: "fst (D_loss (batch_D_pass cfg ops use_soft_labels s b)) =
      (fst (D_loss_real (batch_D_pass cfg ops use_soft_labels s b)) +
       fst (D_loss_fake (batch_D_pass cfg ops use_soft_labels s b))) / 2"
    by (simp add: batch_D_pass_def D_forward_def Let_def)
  have w: "Scalar ''Loss/Discriminator''
        (fst (D_loss (batch_D_pass cfg ops use_soft_labels s b))) (step s + 1)
      \<in> set (writer (process_batch cfg ops use_soft_labels s b))"
    using assms
    by (simp add: process_batch_nondegenerate G_half_step_writer after_D_half_writer Let_def)
  show ?thesis
    unfolding Let_def using w by (simp only: m [symmetric] simp_thms)
qed

theorem D_loss_is_mean_witness:
  "length (fst example_batch) \<noteq> 1 \<and>
   Scalar ''Loss/Discriminator'' 1 1
     \<in> set (writer (process_batch example_config example_ops False example_state
          example_batch))"
  using D_loss_is_mean [of example_batch example_config example_ops False example_state]
  by (simp add: Let_def batch_D_pass_def D_forward_def loss_apply_def example_defs)

subsection \<open>The discriminator's half leaves the generator alone\<close>

text \<open>
  C10. After the discriminator's half of a batch the generator's parameters, gradients and
  optimizer state are the ones before the batch; the discriminator's score of the fake
  images and the discriminator's loss depend on the discriminator only, the fake images
  being detached from the generator.
\<close>

theorem D_half_step_leaves_generator:
  "let sD = after_D_half cfg ops use_soft_labels s b;
       p = batch_D_pass cfg ops use_soft_labels s b
   in G_params sD = G_params s \<and> G_grad sD = G_grad s \<and> G_optim sD = G_optim s \<and>
      snd (D_fake p) = {Disc} \<and> snd (D_loss p) = {Disc}"
  by (simp add: Let_def after_D_half_frame batch_D_pass_def D_forward_deps)
    (simp add: D_forward_def D_apply_def detach_def Let_def)

subsection \<open>What an epoch changes\<close>

lemma run_batches_frame:
  "G_mode (run_batches cfg ops b e s) = G_mode s"
  "D_mode (run_batches cfg ops b e s) = D_mode s"
  "current_datetime (run_batches cfg ops b e s) = current_datetime s"
  "current_char_index (run_batches cfg ops b e s) = current_char_index s"
  "fixed_latent_points (run_batches cfg ops b e s) = fixed_latent_points s"
  "files (run_batches cfg ops b e s) = files s"
  "dataset_chars (run_batches cfg ops b e s) = dataset_chars s"
  by (simp_all add: run_batches_def foldl_process_batch_frame)

lemma save_models_frame:
  "G_params (save_models ops s) = G_params s"
  "D_params (save_models ops s) = D_params s"
  "G_mode (save_models ops s) = G_mode s"
  "D_mode (save_models ops s) = D_mode s"
  "current_datetime (save_models ops s) = current_datetime s"
  "current_char_index (save_models ops s) = current_char_index s"
  "fixed_latent_points (save_models ops s) = fixed_latent_points s"
  "dataset_chars (save_models ops s) = dataset_chars s"
  by (simp_all add: save_models_def)

lemma random_sample_Inr:
  assumes "chars \<noteq> []"
  shows "random_sample ops epoch chars i s =
     Inr (s\<lparr>rng_pos := rng_pos s + 2,
            writer := writer s @
              [Figure (''Random characters/'' @ str_of_nat i)
                 (finalizing_transform ops
                    (generate ops (G_params s) (G_mode s)
                       ['' '', chars ! (unif ops (rng_pos s) mod length chars), '' '']
                       ([0, 1] ! (unif ops (rng_pos s + 1) mod 2))))
                 (caption ['' '', chars ! (unif ops (rng_pos s) mod length chars), '' '']
                    ([0, 1] ! (unif ops (rng_pos s + 1) mod 2)))
                 epoch]\<rparr>)"
  using assms by (simp add: random_sample_def choice_def Let_def numeral_2_eq_2)

lemma random_samples_shape:
  assumes "chars \<noteq> []"
  shows "\<exists>r w. random_samples ops epoch chars is s = Inr (s\<lparr>rng_pos := r, writer := writer s @ w\<rparr>)"
proof (induction "is" arbitrary: s)
  case Nil
  have "s = s\<lparr>rng_pos := rng_pos s, writer := writer s @ []\<rparr>" by simp
  then show ?case by (metis random_samples.simps(1))
next
  case (Cons i "is")
  obtain s1 w1 where s1: "random_sample ops epoch chars i s = Inr s1"
    and s1_eq: "s1 = s\<lparr>rng_pos := rng_pos s + 2, writer := writer s @ w1\<rparr>"
    using random_sample_Inr [OF assms] by blast
  obtain r w where "random_samples ops epoch chars is s1 = Inr (s1\<lparr>rng_pos := r, writer := writer s1 @ w\<rparr>)"
    using Cons.IH by blast
  then have "random_samples ops epoch chars (i # is) s =
      Inr (s\<lparr>rng_pos := r, writer := writer s @ (w1 @ w)\<rparr>)"
    by (simp add: s1 s1_eq)
  then show ?case by blast
qed

lemma random_characters_nonempty:
  "random_characters_to_generate cfg cur \<noteq> []"
  by (simp add: random_characters_to_generate_def)

lemma fixed_point_events_cong:
  "G_params s = G_params t \<Longrightarrow> fixed_latent_points s = fixed_latent_points t \<Longrightarrow>
   fixed_point_events cfg ops epoch s = fixed_point_events cfg ops epoch t"
  by (simp add: fixed_point_events_def fixed_images_def)

lemma visualize_shape:
  "\<exists>r w. visualize cfg ops epoch s =
     Inr (s\<lparr>G_mode := EvalMode, rng_pos := r,
            writer := writer s @ fixed_point_events cfg ops epoch s @ w\<rparr>)"
proof -
  let ?s1 = "s\<lparr>G_mode := EvalMode\<rparr>"
  let ?s2 = "?s1\<lparr>writer := writer ?s1 @ fixed_point_events cfg ops epoch ?s1\<rparr>"
  let ?chars = "random_characters_to_generate cfg (current_char_index ?s2)"
  have ev: "fixed_point_events cfg ops epoch ?s1 = fixed_point_events cfg ops epoch s"
    by (rule fixed_point_events_cong) simp_all
  obtain r w where
    "random_samples ops epoch ?chars [0..<nat (num_characters_to_generate cfg)] ?s2 =
       Inr (?s2\<lparr>rng_pos := r, writer := writer ?s2 @ w\<rparr>)"
    using random_samples_shape [OF random_characters_nonempty] by blast
  then have "visualize cfg ops epoch s =
      Inr (s\<lparr>G_mode := EvalMode, rng_pos := r,
             writer := writer s @ fixed_point_events cfg ops epoch s @ w\<rparr>)"
    by (simp add: visualize_def Let_def random_characters_nonempty ev)
  then show ?thesis by blast
qed

lemma unlock_step_Inr:
  assumes "unlock_step cfg epoch s = Inr s'"
  shows "add_character_every cfg \<noteq> 0"
    and "s' = (if epoch mod add_character_every cfg = 0 \<and> current_char_index s < NUM_CHARS cfg
               then s\<lparr>dataset_chars := dataset_chars s @
                         [projr (list_get (letters_to_watch cfg) (current_char_index s))],
                      current_char_index := current_char_index s + 1\<rparr>
               else s)"
  using assms
  by (auto simp add: unlock_step_def divides_epoch_def letters_to_watch_def
      split: if_splits sum.splits)

lemma unlock_step_total:
  assumes "add_character_every cfg \<noteq> 0"
    and "- int (length (character_to_index_mapping cfg)) \<le> current_char_index s"
    and "NUM_CHARS cfg \<le> int (length (character_to_index_mapping cfg))"
  shows "\<exists>s'. unlock_step cfg epoch s = Inr s'"
  using assms
  by (auto simp add: unlock_step_def divides_epoch_def list_get_def split: sum.splits)

lemma epoch_step_Inr:
  assumes "epoch_step cfg ops soft epoch s = Inr s'"
  shows "\<exists>s1. unlock_step cfg epoch s = Inr s1 \<and>
           current_char_index s' = current_char_index s1 \<and>
           dataset_chars s' = dataset_chars s1 \<and>
           current_datetime s' = current_datetime s \<and>
           fixed_latent_points s' = fixed_latent_points s \<and>
           save_every cfg \<noteq> 0 \<and> produce_every cfg \<noteq> 0 \<and>
           G_mode s' = (if epoch mod produce_every cfg = 0 then EvalMode else TrainMode)"
proof -
  obtain s1 where s1: "unlock_step cfg epoch s = Inr s1"
    using assms by (auto simp add: epoch_step_def split: sum.splits)
  have s1_frame: "current_datetime s1 = current_datetime s"
    "fixed_latent_points s1 = fixed_latent_points s"
    using unlock_step_Inr(2) [OF s1] by (simp_all split: if_splits)
  define s3 where "s3 = run_batches cfg ops soft epoch (s1\<lparr>G_mode := TrainMode, D_mode := TrainMode\<rparr>)"
  define s4 where "s4 = (if epoch mod save_every cfg = 0 then save_models ops s3 else s3)"
  have nz: "save_every cfg \<noteq> 0" "produce_every cfg \<noteq> 0"
    using assms
    by (auto simp add: epoch_step_def s1 Let_def divides_epoch_def split: sum.splits if_splits)
  have s4_frame: "current_char_index s4 = current_char_index s1"
    "dataset_chars s4 = dataset_chars s1"
    "current_datetime s4 = current_datetime s1"
    "fixed_latent_points s4 = fixed_latent_points s1"
    "G_mode s4 = TrainMode"
    by (simp_all add: s4_def s3_def save_models_frame run_batches_frame)
  have res: "Inr s' = (if epoch mod produce_every cfg = 0 then visualize cfg ops epoch s4 else Inr s4)"
    using assms nz
    by (auto simp add: epoch_step_def s1 Let_def divides_epoch_def s4_def s3_def split: if_splits)
  obtain r w where v: "visualize cfg ops epoch s4 =
      Inr (s4\<lparr>G_mode := EvalMode, rng_pos := r,
              writer := writer s4 @ fixed_point_events cfg ops epoch s4 @ w\<rparr>)"
    using visualize_shape by blast
  show ?thesis
    using res s1 nz by (auto simp add: v s4_frame s1_frame split: if_splits)
qed

lemma epoch_step_total:
  assumes "unlock_step cfg epoch s = Inr s1"
    and "save_every cfg \<noteq> 0" and "produce_every cfg \<noteq> 0"
  shows "\<exists>s'. epoch_step cfg ops soft epoch s = Inr s'"
proof -
  obtain r w where "visualize cfg ops epoch
      (if epoch mod save_every cfg = 0
       then save_models ops (run_batches cfg ops soft epoch (s1\<lparr>G_mode := TrainMode, D_mode := TrainMode\<rparr>))
       else run_batches cfg ops soft epoch (s1\<lparr>G_mode := TrainMode, D_mode := TrainMode\<rparr>)) = Inr r"
    using visualize_shape by blast
  then show ?thesis
    using assms by (auto simp add: epoch_step_def Let_def divides_epoch_def)
qed


lemma run_epochs_Inr:
  assumes "run_epochs cfg ops soft es s = Inr t"
  shows "current_datetime t = current_datetime s \<and>
         fixed_latent_points t = fixed_latent_points s \<and>
         current_char_index s \<le> current_char_index t \<and>
         (current_char_index s \<le> NUM_CHARS cfg \<longrightarrow> current_char_index t \<le> NUM_CHARS cfg)"
  using assms
proof (induction es arbitrary: s)
  case Nil
  then show ?case by simp
next
  case (Cons e es)
  obtain s' where s': "epoch_step cfg ops soft e s = Inr s'"
    and rest: "run_epochs cfg ops soft es s' = Inr t"
    using Cons.prems by (auto split: sum.splits)
  obtain s1 where s1: "unlock_step cfg e s = Inr s1"
    and fr: "current_char_index s' = current_char_index s1"
      "current_datetime s' = current_datetime s"
      "fixed_latent_points s' = fixed_latent_points s"
    using epoch_step_Inr [OF s'] by blast
  have cur: "current_char_index s \<le> current_char_index s'"
    "current_char_index s \<le> NUM_CHARS cfg \<Longrightarrow> current_char_index s' \<le> NUM_CHARS cfg"
    using unlock_step_Inr(2) [OF s1] fr(1) by (auto split: if_splits)
  show ?case
    using Cons.IH [OF rest] fr cur by auto
qed

lemma run_epochs_total:
  assumes "add_character_every cfg \<noteq> 0" and "save_every cfg \<noteq> 0" and "produce_every cfg \<noteq> 0"
    and "NUM_CHARS cfg \<le> int (length (character_to_index_mapping cfg))"
    and "- int (length (character_to_index_mapping cfg)) \<le> current_char_index s"
  shows "\<exists>t. run_epochs cfg ops soft es s = Inr t"
  using assms(5)
proof (induction es arbitrary: s)
  case Nil
  then show ?case by simp
next
  case (Cons e es)
  obtain s1 where s1: "unlock_step cfg e s = Inr s1"
    using unlock_step_total [OF assms(1) Cons.prems assms(4)] by blast
  obtain s' where s': "epoch_step cfg ops soft e s = Inr s'"
    using epoch_step_total [OF s1 assms(2,3)] by blast
  have "current_char_index s \<le> current_char_index s'"
    using epoch_step_Inr [OF s'] unlock_step_Inr(2) [of cfg e s] by (auto split: if_splits)
  then have "- int (length (character_to_index_mapping cfg)) \<le> current_char_index s'"
    using Cons.prems by linarith
  then show ?case
    using Cons.IH s' by simp
qed

subsection \<open>The curriculum cursor\<close>

text \<open>
  C2. With unlock, checkpoint and visualization intervals that are not zero, a vocabulary
  table of at least \<open>NUM_CHARS\<close> entries and a cursor that indexes it, the epoch-boundary
  check and the whole epoch return. The cursor after the epoch is the cursor before it or
  one more; it is one more exactly when the epoch number is divisible by the unlock
  interval and the cursor is below \<open>NUM_CHARS\<close>, and then the character at the old cursor
  has been added to the dataset. When the cursor is not below \<open>NUM_CHARS\<close> the check
  returns the state it was given. A cursor that is at most \<open>NUM_CHARS\<close> stays so, over
  one epoch and over any run of epochs.
\<close>

theorem curriculum_cursor:
  assumes "add_character_every cfg \<noteq> 0" and "save_every cfg \<noteq> 0" and "produce_every cfg \<noteq> 0"
    and "NUM_CHARS cfg \<le> int (length (character_to_index_mapping cfg))"
    and "- int (length (character_to_index_mapping cfg)) \<le> current_char_index s"
  shows
    "(\<exists>s1 s'. unlock_step cfg epoch s = Inr s1 \<and>
        epoch_step cfg ops use_soft_labels epoch s = Inr s' \<and>
        current_char_index s' = current_char_index s1 \<and>
        dataset_chars s' = dataset_chars s1 \<and>
        (current_char_index s' = current_char_index s \<or>
         current_char_index s' = current_char_index s + 1) \<and>
        (current_char_index s' = current_char_index s + 1 \<longleftrightarrow>
           epoch mod add_character_every cfg = 0 \<and> current_char_index s < NUM_CHARS cfg) \<and>
        (current_char_index s' = current_char_index s + 1 \<longrightarrow>
           (\<exists>ch. list_get (letters_to_watch cfg) (current_char_index s) = Inr ch \<and>
                 dataset_chars s' = dataset_chars s @ [ch])) \<and>
        (\<not> current_char_index s < NUM_CHARS cfg \<longrightarrow> s1 = s) \<and>
        (current_char_index s \<le> NUM_CHARS cfg \<longrightarrow> current_char_index s' \<le> NUM_CHARS cfg)) \<and>
     (\<exists>t. run_epochs cfg ops use_soft_labels es s = Inr t \<and>
        (current_char_index s \<le> NUM_CHARS cfg \<longrightarrow> current_char_index t \<le> NUM_CHARS cfg))"
proof (intro conjI)
  obtain s1 where s1: "unlock_step cfg epoch s = Inr s1"
    using unlock_step_total [OF assms(1,5,4)] by blast
  obtain s' where s': "epoch_step cfg ops use_soft_labels epoch s = Inr s'"
    using epoch_step_total [OF s1 assms(2,3)] by blast
  have fr: "current_char_index s' = current_char_index s1" "dataset_chars s' = dataset_chars s1"
    using epoch_step_Inr [OF s'] s1 by auto
  have s1_eq: "s1 = (if epoch mod add_character_every cfg = 0 \<and> current_char_index s < NUM_CHARS cfg
               then s\<lparr>dataset_chars := dataset_chars s @
                         [projr (list_get (letters_to_watch cfg) (current_char_index s))],
                      current_char_index := current_char_index s + 1\<rparr>
               else s)"
    by (rule unlock_step_Inr(2) [OF s1])
  have get: "current_char_index s < NUM_CHARS cfg \<Longrightarrow>
      \<exists>ch. list_get (letters_to_watch cfg) (current_char_index s) = Inr ch"
    using assms(4,5) by (auto simp add: list_get_def letters_to_watch_def)
  have "current_char_index s' = current_char_index s + 1 \<longrightarrow>
      (\<exists>ch. list_get (letters_to_watch cfg) (current_char_index s) = Inr ch \<and>
            dataset_chars s' = dataset_chars s @ [ch])"
    using get fr s1_eq by (auto split: if_splits)
  then show "\<exists>s1 s'. unlock_step cfg epoch s = Inr s1 \<and>
        epoch_step cfg ops use_soft_labels epoch s = Inr s' \<and>
        current_char_index s' = current_char_index s1 \<and>
        dataset_chars s' = dataset_chars s1 \<and>
        (current_char_index s' = current_char_index s \<or>
         current_char_index s' = current_char_index s + 1) \<and>
        (current_char_index s' = current_char_index s + 1 \<longleftrightarrow>
           epoch mod add_character_every cfg = 0 \<and> current_char_index s < NUM_CHARS cfg) \<and>
        (current_char_index s' = current_char_index s + 1 \<longrightarrow>
           (\<exists>ch. list_get (letters_to_watch cfg) (current_char_index s) = Inr ch \<and>
                 dataset_chars s' = dataset_chars s @ [ch])) \<and>
        (\<not> current_char_index s < NUM_CHARS cfg \<longrightarrow> s1 = s) \<and>
        (current_char_index s \<le> NUM_CHARS cfg \<longrightarrow> current_char_index s' \<le> NUM_CHARS cfg)"
    using s1 s' fr s1_eq by (auto split: if_splits)
next
  obtain t where t: "run_epochs cfg ops use_soft_labels es s = Inr t"
    using run_epochs_total [OF assms] by blast
  then show "\<exists>t. run_epochs cfg ops use_soft_labels es s = Inr t \<and>
        (current_char_index s \<le> NUM_CHARS cfg \<longrightarrow> current_char_index t \<le> NUM_CHARS cfg)"
    using run_epochs_Inr [OF t] by blast
qed

theorem curriculum_cursor_witness:
  "add_character_every example_config \<noteq> 0 \<and> save_every example_config \<noteq> 0 \<and>
   produce_every example_config \<noteq> 0 \<and>
   NUM_CHARS example_config \<le> int (length (character_to_index_mapping example_config)) \<and>
   - int (length (character_to_index_mapping example_config))
     \<le> current_char_index example_state \<and>
   current_char_index (projr (epoch_step example_config example_ops False 2 example_state)) = 2 \<and>
   dataset_chars (projr (epoch_step example_config example_ops False 2 example_state))
     = ['' '', ''a''] \<and>
   current_char_index (projr (epoch_step example_config example_ops False 1 example_state)) = 1 \<and>
   current_char_index (projr (run_epochs example_config example_ops False [1, 2, 3, 4, 5, 6]
     example_state)) \<le> 3"
proof -
  have h: "add_character_every example_config \<noteq> 0" "save_every example_config \<noteq> 0"
    "produce_every example_config \<noteq> 0"
    "NUM_CHARS example_config \<le> int (length (character_to_index_mapping example_config))"
    "- int (length (character_to_index_mapping example_config))
       \<le> current_char_index example_state"
    by (simp_all add: example_config_def example_state_def)
  have c: "current_char_index example_state = 1" "dataset_chars example_state = ['' '']"
    "add_character_every example_config = 2" "NUM_CHARS example_config = 3"
    "letters_to_watch example_config = ['' '', ''a'', ''b'']"
    by (simp_all add: example_config_def example_state_def letters_to_watch_def)
  have g: "list_get ['' '', ''a'', ''b''] 1 = Inr ''a''"
    by (simp add: list_get_def)
  show ?thesis
    using h curriculum_cursor [OF h, of 2 example_ops False "[1, 2, 3, 4, 5, 6]"]
      curriculum_cursor [OF h, of 1 example_ops False "[]"]
    by (auto simp add: c g)
qed

end
